theory Spec2Isabelle
  imports Complex_Main
begin

section \<open>Data model (types module)\<close>

text \<open>
  Every rate and amount of the commission engine is a \<^verbatim>\<open>Decimal\<close> of decimal.js.
  The model reads a finite \<^verbatim>\<open>Decimal\<close> as the rational number it denotes; the
  arithmetic of decimal.js on these values, with its rounding, is the section on
  decimal.js below.  The values \<^verbatim>\<open>NaN\<close> and \<^verbatim>\<open>Infinity\<close> and the exponent limits of
  decimal.js are outside the model.  A JavaScript \<^verbatim>\<open>number\<close> that is handed to
  \<^verbatim>\<open>new Decimal\<close> is read as the decimal it prints as; a \<^verbatim>\<open>Date\<close> is its millisecond
  time stamp; an optional field is an \<^typ>\<open>'a option\<close>.  The \<^verbatim>\<open>priority\<close> of a fee tier and
  the \<^verbatim>\<open>commissionLevel\<close> of a commission are integers.

  Field names are those of the interfaces.  Isabelle record fields are global
  constants, so a field name that several interfaces share carries the interface
  name as a suffix in all but one of them.
\<close>

type_synonym Decimal = rat

type_synonym Date = int

datatype CommissionStructureType = KOL_50 | KOL_CUSTOM | STANDARD

record CustomCommissionStructure =
  level1Rate :: "rat option"
  level2Rate :: "rat option"
  level3Rate :: "rat option"
  type_Custom :: CommissionStructureType
  description_Custom :: "string option"

record User =
  id_User :: string
  email :: string
  username :: "string option"
  referralCode :: string
  referrerId :: "string option"
  feeTier :: string
  customFeeRate :: "Decimal option"
  feeDiscountRate :: Decimal
  customCommissionStructure :: "CustomCommissionStructure option"
  isTeamMember :: bool
  isWaivedFees :: bool
  totalXpEarned :: Decimal
  totalTradeVolume :: Decimal
  totalFeesPaid :: Decimal
  createdAt_User :: Date
  updatedAt_User :: Date
  lastActiveAt :: Date



record Trade =
  id_Trade :: string
  userId :: string
  tradeType :: string
  baseAsset :: string
  quoteAsset :: string
  side :: string
  volume :: Decimal
  price :: Decimal
  feeRate_Trade :: Decimal
  feeAmount_Trade :: Decimal
  netFeeAmount_Trade :: Decimal
  rebateAmount_Trade :: Decimal
  chain_Trade :: string
  network :: string
  transactionHash :: "string option"
  status_Trade :: string
  settledAt :: "Date option"
  createdAt_Trade :: Date
  updatedAt_Trade :: Date

record FeeTier =
  id_FeeTier :: string
  name :: string
  minimumVolume :: Decimal
  feeRate :: Decimal
  description :: "string option"
  isActive :: bool
  priority :: int
  createdAt_FeeTier :: Date
  updatedAt_FeeTier :: Date

record FeeCalculationResult =
  originalFeeRate :: Decimal
  appliedFeeRate :: Decimal
  feeAmount :: Decimal
  netFeeAmount :: Decimal
  rebateAmount :: Decimal
  discountApplied :: bool
  tierUsed :: string

record CommissionDistribution =
  level :: nat
  earnerId :: string
  earnerEmail :: string
  amount :: Decimal
  rate :: Decimal
  commissionId :: string

section \<open>Configuration (config module)\<close>

text \<open>
  \<^verbatim>\<open>referralConfig\<close> is read from the process environment when the module is loaded
  (\<^verbatim>\<open>parseFloat(process.env.BASE_FEE_TIER_RATE || '0.01')\<close> and so on), so the functions
  below take it as a parameter \<open>cfg\<close>; \<open>referralConfig\<close> is the value it has when no
  variable is set.  \<^verbatim>\<open>businessRules\<close> is a literal: its two members used by the
  calculator are constants here.
\<close>

record Rates =
  level1 :: rat
  level2 :: rat
  level3 :: rat

record CommissionConfig =
  maxDepth :: nat
  rates :: Rates
  defaultFeeDiscount :: rat
  baseFeeRate :: rat

definition referralConfig :: CommissionConfig where
  "referralConfig =
     \<lparr> maxDepth = 3,
       rates = \<lparr> level1 = 30 / 100, level2 = 3 / 100, level3 = 2 / 100 \<rparr>,
       defaultFeeDiscount = 10 / 100,
       baseFeeRate = 1 / 100 \<rparr>"

definition maxReferralDepth :: nat where
  "maxReferralDepth = 3"

definition minimumCommissionAmount :: Decimal where
  "minimumCommissionAmount = 1 / 100"

section \<open>decimal.js arithmetic\<close>

text \<open>
  The calculator never configures decimal.js, so every \<^verbatim>\<open>mul\<close>, \<^verbatim>\<open>sub\<close> and \<^verbatim>\<open>add\<close>
  returns the exact result rounded to the default \<^verbatim>\<open>precision\<close> of \<open>20\<close> significant
  digits with the default \<^verbatim>\<open>rounding\<close> mode \<^verbatim>\<open>ROUND_HALF_UP\<close> (to the nearest
  neighbour, a tie away from zero).  The constructor \<^verbatim>\<open>new Decimal\<close> does not round, and
  the comparisons \<^verbatim>\<open>gte\<close>, \<^verbatim>\<open>lte\<close>, \<^verbatim>\<open>lt\<close>, \<^verbatim>\<open>gt\<close> are exact: they are the order of
  \<^typ>\<open>rat\<close>.

  For \<open>x > 0\<close>, \<open>sigScale x\<close> is the power of ten that brings \<open>x\<close> into
  \<open>[10^19, 10^20)\<close>, where the twenty significant digits are the integer part.
\<close>

function sigScale :: "rat \<Rightarrow> rat" where
  "sigScale x =
     (if x \<le> 0 then 1
      else if x < 10 ^ 19 then 10 * sigScale (x * 10)
      else if 10 ^ 20 \<le> x then sigScale (x / 10) / 10
      else 1)"
  by pat_completeness auto
termination
proof -
  define m :: "rat \<Rightarrow> nat" where
    "m = (\<lambda>x. if x < 10 ^ 19 then nat \<lceil>10 ^ 19 / x\<rceil>
               else if 10 ^ 20 \<le> x then nat \<lfloor>x\<rfloor> else 0)"
  have up: "m (x * 10) < m x" if pos: "\<not> x \<le> 0" and small: "x < 10 ^ 19" for x
  proof -
    define y where "y = 10 ^ 19 / x"
    have "1 < y"
      using pos small by (simp add: y_def)
    then have c2: "2 \<le> \<lceil>y\<rceil>"
      by (simp add: le_ceiling_iff)
    have "y \<le> of_int \<lceil>y\<rceil>"
      by (rule le_of_int_ceiling)
    moreover have "(2 :: rat) \<le> of_int \<lceil>y\<rceil>"
      using c2 of_int_le_iff [of 2 "\<lceil>y\<rceil>", where ?'a = rat] by simp
    ultimately have "y / 10 \<le> of_int \<lceil>y\<rceil> - 1"
      by linarith
    then have "y / 10 \<le> of_int (\<lceil>y\<rceil> - 1)"
      by simp
    then have step: "\<lceil>y / 10\<rceil> \<le> \<lceil>y\<rceil> - 1"
      by (simp only: ceiling_le_iff)
    have mx: "m x = nat \<lceil>y\<rceil>"
      using small by (simp add: m_def y_def)
    have "m (x * 10) \<le> nat \<lceil>y / 10\<rceil>"
      using small by (simp add: m_def y_def)
    with mx step c2 show ?thesis
      by linarith
  qed
  have down: "m (x / 10) < m x" if big: "10 ^ 20 \<le> x" for x
  proof -
    have fl: "1 \<le> \<lfloor>x\<rfloor>"
      using big by (simp add: le_floor_iff)
    have "x < of_int \<lfloor>x\<rfloor> + 1"
      by linarith
    moreover have "(1 :: rat) \<le> of_int \<lfloor>x\<rfloor>"
      using fl of_int_le_iff [of 1 "\<lfloor>x\<rfloor>", where ?'a = rat] by simp
    ultimately have "x / 10 < of_int \<lfloor>x\<rfloor>"
      by linarith
    then have less: "\<lfloor>x / 10\<rfloor> < \<lfloor>x\<rfloor>"
      by (simp add: floor_less_iff)
    have mx: "m x = nat \<lfloor>x\<rfloor>"
      using big by (simp add: m_def)
    have "m (x / 10) \<le> nat \<lfloor>x / 10\<rfloor>"
      using big by (simp add: m_def)
    with mx less fl show ?thesis
      by linarith
  qed
  show ?thesis
    by (relation "measure m") (simp_all add: up down)
qed

declare sigScale.simps [simp del]

text \<open>\<^verbatim>\<open>finalise(x, precision, rounding)\<close> of decimal.js at its defaults.\<close>

definition finalise :: "rat \<Rightarrow> rat" where
  "finalise x =
     (if x = 0 then 0
      else sgn x * of_int \<lfloor>\<bar>x\<bar> * sigScale \<bar>x\<bar> + 1 / 2\<rfloor> / sigScale \<bar>x\<bar>)"

definition Decimal_mul :: "Decimal \<Rightarrow> Decimal \<Rightarrow> Decimal" where
  "Decimal_mul x y = finalise (x * y)"

definition Decimal_sub :: "Decimal \<Rightarrow> Decimal \<Rightarrow> Decimal" where
  "Decimal_sub x y = finalise (x - y)"

definition Decimal_add :: "Decimal \<Rightarrow> Decimal \<Rightarrow> Decimal" where
  "Decimal_add x y = finalise (x + y)"

section \<open>CommissionCalculator\<close>

subsection \<open>calculateEffectiveFeeRate\<close>

text \<open>
  \<^verbatim>\<open>availableFeeTiers.filter(t => t.isActive).sort((a, b) => b.priority - a.priority)\<close>:
  \<^verbatim>\<open>Array.prototype.sort\<close> is stable, and the comparator puts the higher priority first,
  which is the stable insertion sort of the library on the key \<open>- priority\<close>.
\<close>

definition sortByPriorityDesc :: "FeeTier list \<Rightarrow> FeeTier list" where
  "sortByPriorityDesc tiers = sort_key (\<lambda>tier. - priority tier) tiers"

text \<open>
  The \<^verbatim>\<open>for (const tier of ...)\<close> loop that stops at the first tier whose
  \<^verbatim>\<open>minimumVolume\<close> the volume reaches; \<open>None\<close> is the loop running to its end.
\<close>

fun firstQualifyingTier :: "Decimal \<Rightarrow> FeeTier list \<Rightarrow> FeeTier option" where
  "firstQualifyingTier v [] = None"
| "firstQualifyingTier v (tier # tiers) =
     (if minimumVolume tier \<le> v then Some tier else firstQualifyingTier v tiers)"

definition calculateEffectiveFeeRate ::
  "CommissionConfig \<Rightarrow> User \<Rightarrow> Decimal \<Rightarrow> FeeTier list \<Rightarrow> FeeCalculationResult" where
  "calculateEffectiveFeeRate cfg user tradeVolume availableFeeTiers =
     (if isTeamMember user \<or> isWaivedFees user then
        \<lparr> originalFeeRate = 0, appliedFeeRate = 0, feeAmount = 0, netFeeAmount = 0,
          rebateAmount = 0, discountApplied = False, tierUsed = ''WAIVED'' \<rparr>
      else
        case customFeeRate user of
          Some custom \<Rightarrow>
            \<lparr> originalFeeRate = custom, appliedFeeRate = custom,
              feeAmount = Decimal_mul tradeVolume custom,
              netFeeAmount = Decimal_mul tradeVolume custom,
              rebateAmount = 0, discountApplied = False, tierUsed = ''CUSTOM'' \<rparr>
        | None \<Rightarrow>
            let applicableTiers = sortByPriorityDesc (filter isActive availableFeeTiers);
                bestTier = firstQualifyingTier (totalTradeVolume user) applicableTiers;
                discountedBaseRate =
                  Decimal_mul (baseFeeRate cfg) (Decimal_sub 1 (feeDiscountRate user));
                (effectiveRate, tierName, discount) =
                  (case bestTier of
                     Some tier \<Rightarrow>
                       if feeRate tier < discountedBaseRate
                       then (feeRate tier, name tier, False)
                       else (discountedBaseRate, ''BASE'', 0 < feeDiscountRate user)
                   | None \<Rightarrow> (discountedBaseRate, ''BASE'', 0 < feeDiscountRate user));
                fee = Decimal_mul tradeVolume (baseFeeRate cfg);
                net = Decimal_mul tradeVolume effectiveRate
            in \<lparr> originalFeeRate = baseFeeRate cfg, appliedFeeRate = effectiveRate,
                 feeAmount = fee, netFeeAmount = net, rebateAmount = Decimal_sub fee net,
                 discountApplied = discount, tierUsed = tierName \<rparr>)"

subsection \<open>calculateCommissionDistribution\<close>

text \<open>
  \<^verbatim>\<open>new Decimal(customStructure.level1Rate ?? referralConfig.rates.level1)\<close>: the
  configured rate stands in only for an absent rate; a rate of \<open>0\<close> that is set is kept.
\<close>

definition getCustomCommissionRate ::
  "CommissionConfig \<Rightarrow> CustomCommissionStructure \<Rightarrow> nat \<Rightarrow> Decimal" where
  "getCustomCommissionRate cfg customStructure lvl =
     (if lvl = 1 then
        (case level1Rate customStructure of Some r \<Rightarrow> r | None \<Rightarrow> level1 (rates cfg))
      else if lvl = 2 then
        (case level2Rate customStructure of Some r \<Rightarrow> r | None \<Rightarrow> level2 (rates cfg))
      else if lvl = 3 then
        (case level3Rate customStructure of Some r \<Rightarrow> r | None \<Rightarrow> level3 (rates cfg))
      else 0)"

definition getCommissionRate :: "CommissionConfig \<Rightarrow> User \<Rightarrow> nat \<Rightarrow> Decimal" where
  "getCommissionRate cfg referrer lvl =
     (case customCommissionStructure referrer of
        Some customStructure \<Rightarrow> getCustomCommissionRate cfg customStructure lvl
      | None \<Rightarrow>
          if lvl = 1 then level1 (rates cfg)
          else if lvl = 2 then level2 (rates cfg)
          else if lvl = 3 then level3 (rates cfg)
          else 0)"

text \<open>
  The \<^verbatim>\<open>for (let level = 1; level <= Math.min(referralChain.length, maxReferralDepth); level++)\<close>
  loop, with the list of distributions pushed so far as its state.  The loop starts at
  level \<open>1\<close>, so \<open>lvl - 1\<close> is an index of the chain whenever the guard holds.
\<close>

function distributionLoop ::
  "CommissionConfig \<Rightarrow> User list \<Rightarrow> Decimal \<Rightarrow> nat \<Rightarrow> CommissionDistribution list
     \<Rightarrow> CommissionDistribution list" where
  "distributionLoop cfg referralChain net lvl distributions =
     (if lvl \<le> min (length referralChain) maxReferralDepth then
        (let referrer = referralChain ! (lvl - 1) in
         if isTeamMember referrer then
           distributionLoop cfg referralChain net (lvl + 1) distributions
         else
           (let commissionRate = getCommissionRate cfg referrer lvl;
                commissionAmount = Decimal_mul net commissionRate
            in if minimumCommissionAmount \<le> commissionAmount then
                 distributionLoop cfg referralChain net (lvl + 1)
                   (distributions @
                      [\<lparr> level = lvl, earnerId = id_User referrer,
                         earnerEmail = email referrer, amount = commissionAmount,
                         rate = commissionRate, commissionId = '''' \<rparr>])
               else distributionLoop cfg referralChain net (lvl + 1) distributions))
      else distributions)"
  by pat_completeness auto
termination
  by (relation "measure (\<lambda>(cfg, referralChain, net, lvl, distributions).
                   Suc (min (length referralChain) maxReferralDepth) - lvl)") auto

declare distributionLoop.simps [simp del]

definition calculateCommissionDistribution ::
  "CommissionConfig \<Rightarrow> Trade \<Rightarrow> User \<Rightarrow> User list \<Rightarrow> FeeCalculationResult
     \<Rightarrow> CommissionDistribution list" where
  "calculateCommissionDistribution cfg trade trader referralChain feeCalculationResult =
     (if netFeeAmount feeCalculationResult \<le> 0 then []
      else distributionLoop cfg referralChain (netFeeAmount feeCalculationResult) 1 [])"

text \<open>
  The rate of a level as the specification words it: the custom structure's rate for
  that level when the structure is present and the rate is set, the standard
  configured rate of the level otherwise.
\<close>

definition standardRate_spec :: "CommissionConfig \<Rightarrow> nat \<Rightarrow> Decimal" where
  "standardRate_spec cfg n = [level1 (rates cfg), level2 (rates cfg), level3 (rates cfg)] ! (n - 1)"

definition customRate_spec :: "CustomCommissionStructure \<Rightarrow> nat \<Rightarrow> rat option" where
  "customRate_spec cs n = [level1Rate cs, level2Rate cs, level3Rate cs] ! (n - 1)"

definition levelRate_spec :: "CommissionConfig \<Rightarrow> User \<Rightarrow> nat \<Rightarrow> Decimal" where
  "levelRate_spec cfg referrer n =
     (case customCommissionStructure referrer of
        None \<Rightarrow> standardRate_spec cfg n
      | Some cs \<Rightarrow> (case customRate_spec cs n of None \<Rightarrow> standardRate_spec cfg n | Some r \<Rightarrow> r))"

text \<open>What one pass of the loop body adds to the list at level \<open>lvl\<close>.\<close>

definition levelEntry ::
  "CommissionConfig \<Rightarrow> User list \<Rightarrow> Decimal \<Rightarrow> nat \<Rightarrow> CommissionDistribution list" where
  "levelEntry cfg referralChain net lvl =
     (let referrer = referralChain ! (lvl - 1) in
      if isTeamMember referrer then []
      else if minimumCommissionAmount \<le> Decimal_mul net (getCommissionRate cfg referrer lvl) then
        [\<lparr> level = lvl, earnerId = id_User referrer, earnerEmail = email referrer,
           amount = Decimal_mul net (getCommissionRate cfg referrer lvl),
           rate = getCommissionRate cfg referrer lvl, commissionId = '''' \<rparr>]
      else [])"

subsection \<open>validateReferralChain\<close>

text \<open>
  The loop over the chain that collects the ids seen so far in a \<^verbatim>\<open>Set\<close> and returns
  at the first id that is already in it; the result \<open>True\<close> is that early return.
\<close>

fun circularReference :: "string set \<Rightarrow> User list \<Rightarrow> bool" where
  "circularReference userIds [] = False"
| "circularReference userIds (user # users) =
     (if id_User user \<in> userIds then True
      else circularReference (insert (id_User user) userIds) users)"

definition validateReferralChain :: "string \<Rightarrow> User list \<Rightarrow> bool" where
  "validateReferralChain uid referralChain =
     (if list_ex (\<lambda>user. id_User user = uid) referralChain then False
      else if circularReference {} referralChain then False
      else if maxReferralDepth < length referralChain then False
      else True)"

subsection \<open>calculateOptimalFeeTier\<close>

text \<open>
  \<^verbatim>\<open>activeTiers.find(t => t.name === 'BASE') || activeTiers[0]\<close> is \<^verbatim>\<open>undefined\<close> when
  no tier is active; that result is \<open>None\<close>.
\<close>

definition calculateOptimalFeeTier :: "Decimal \<Rightarrow> FeeTier list \<Rightarrow> FeeTier option" where
  "calculateOptimalFeeTier userVolume availableFeeTiers =
     (let activeTiers = sortByPriorityDesc (filter isActive availableFeeTiers) in
      case firstQualifyingTier userVolume activeTiers of
        Some tier \<Rightarrow> Some tier
      | None \<Rightarrow>
          (case find (\<lambda>tier. name tier = ''BASE'') activeTiers of
             Some base \<Rightarrow> Some base
           | None \<Rightarrow> (case activeTiers of [] \<Rightarrow> None | tier # _ \<Rightarrow> Some tier)))"

subsection \<open>calculateEarningsBreakdown\<close>





subsection \<open>Test fixtures (unit tests of the calculator)\<close>

definition mockUser :: User where
  "mockUser =
     \<lparr> id_User = ''user-1'', email = ''test@example.com'', username = Some ''testuser'',
       referralCode = ''NIKATEST'', referrerId = None, feeTier = ''BASE'',
       customFeeRate = None, feeDiscountRate = 0, customCommissionStructure = None,
       isTeamMember = False, isWaivedFees = False, totalXpEarned = 0,
       totalTradeVolume = 0, totalFeesPaid = 0,
       createdAt_User = 0, updatedAt_User = 0, lastActiveAt = 0 \<rparr>"

definition mkTier :: "string \<Rightarrow> string \<Rightarrow> Decimal \<Rightarrow> Decimal \<Rightarrow> int \<Rightarrow> FeeTier" where
  "mkTier i n v r p =
     \<lparr> id_FeeTier = i, name = n, minimumVolume = v, feeRate = r, description = None,
       isActive = True, priority = p, createdAt_FeeTier = 0, updatedAt_FeeTier = 0 \<rparr>"

definition mockFeeTiers :: "FeeTier list" where
  "mockFeeTiers =
     [ mkTier ''1'' ''BASE'' 0 (1 / 100) 0,
       mkTier ''2'' ''TIER1'' 10000 (8 / 1000) 1,
       mkTier ''3'' ''VIP'' 1000000 (3 / 1000) 4 ]"

definition tier1User :: User where
  "tier1User = mockUser\<lparr> feeDiscountRate := 1 / 10, totalTradeVolume := 15000 \<rparr>"

definition surchargedUser :: User where
  "surchargedUser = mockUser\<lparr> feeDiscountRate := - (1 / 10) \<rparr>"

definition overDiscountedUser :: User where
  "overDiscountedUser = mockUser\<lparr> feeDiscountRate := 3 / 2 \<rparr>"

definition negativeBaseConfig :: CommissionConfig where
  "negativeBaseConfig = referralConfig\<lparr> baseFeeRate := - (1 / 100) \<rparr>"

definition longDiscountUser :: User where
  "longDiscountUser = mockUser\<lparr> feeDiscountRate := 123456789012345678901 / 10 ^ 21 \<rparr>"

definition cheapTier :: FeeTier where
  "cheapTier = mkTier ''5'' ''PROMO'' 0 (1 / 1000) 0"

definition negativeRateTier :: FeeTier where
  "negativeRateTier = mkTier ''9'' ''REBATE'' 0 (- (1 / 1000)) 5"

definition mockTrade :: Trade where
  "mockTrade =
     \<lparr> id_Trade = ''trade-1'', userId = ''user-1'', tradeType = ''SPOT'', baseAsset = ''BTC'',
       quoteAsset = ''USDC'', side = ''BUY'', volume = 1, price = 50000,
       feeRate_Trade = 1 / 100, feeAmount_Trade = 500, netFeeAmount_Trade = 450,
       rebateAmount_Trade = 50, chain_Trade = ''EVM'', network = ''Arbitrum'',
       transactionHash = None, status_Trade = ''COMPLETED'', settledAt = Some 0,
       createdAt_Trade = 0, updatedAt_Trade = 0 \<rparr>"

definition mockFeeResult :: FeeCalculationResult where
  "mockFeeResult =
     \<lparr> originalFeeRate = 1 / 100, appliedFeeRate = 9 / 1000, feeAmount = 500,
       netFeeAmount = 450, rebateAmount = 50, discountApplied = True, tierUsed = ''BASE'' \<rparr>"

definition zeroFeeResult :: FeeCalculationResult where
  "zeroFeeResult = mockFeeResult\<lparr> netFeeAmount := 0 \<rparr>"

definition traderUser :: User where
  "traderUser = mockUser\<lparr> id_User := ''trader'' \<rparr>"

definition level1User :: User where
  "level1User = mockUser\<lparr> id_User := ''level1'', email := ''level1@test.com'' \<rparr>"

definition level2User :: User where
  "level2User = mockUser\<lparr> id_User := ''level2'', email := ''level2@test.com'' \<rparr>"

definition level3User :: User where
  "level3User = mockUser\<lparr> id_User := ''level3'', email := ''level3@test.com'' \<rparr>"

definition teamMember :: User where
  "teamMember = mockUser\<lparr> id_User := ''team'', email := ''team@test.com'', isTeamMember := True \<rparr>"

definition kolCustomStructure :: CustomCommissionStructure where
  "kolCustomStructure =
     \<lparr> level1Rate = Some (50 / 100), level2Rate = Some (5 / 100), level3Rate = Some (3 / 100),
       type_Custom = KOL_50, description_Custom = None \<rparr>"

definition kol :: User where
  "kol = mockUser\<lparr> id_User := ''kol'', email := ''kol@test.com'',
                    customCommissionStructure := Some kolCustomStructure \<rparr>"

definition thirdsStructure :: CustomCommissionStructure where
  "thirdsStructure =
     \<lparr> level1Rate = Some (3333333333333333 / 10 ^ 16), level2Rate = None, level3Rate = None,
       type_Custom = KOL_CUSTOM, description_Custom = None \<rparr>"

definition thirdsReferrer :: User where
  "thirdsReferrer = mockUser\<lparr> id_User := ''kol3'', email := ''kol3@test.com'',
                               customCommissionStructure := Some thirdsStructure \<rparr>"

definition smallFeeResult :: FeeCalculationResult where
  "smallFeeResult = mockFeeResult\<lparr> netFeeAmount := 30000000000000003 / 10 ^ 18 \<rparr>"

definition user1 :: User where "user1 = mockUser\<lparr> id_User := ''user1'' \<rparr>"
definition user2 :: User where "user2 = mockUser\<lparr> id_User := ''user2'' \<rparr>"
definition user3 :: User where "user3 = mockUser\<lparr> id_User := ''user3'' \<rparr>"

definition steepTiers :: "FeeTier list" where
  "steepTiers = [ mkTier ''1'' ''TIER1'' 100 (8 / 1000) 1, mkTier ''0'' ''TIER0'' 50 (9 / 1000) 0 ]"





section \<open>Rounding to twenty significant digits\<close>

text \<open>
  \<open>sigScale x\<close> is a positive power of ten that scales a positive \<open>x\<close> into
  \<open>[10^19, 10^20)\<close>.  So \<open>finalise\<close> rounds to twenty significant digits; it is odd,
  monotone, and leaves unchanged every value that has at most twenty significant
  digits.
\<close>

lemma floor_numeral_divide:
  "\<lfloor>numeral a / numeral b :: rat\<rfloor> = numeral a div numeral b"
  using floor_divide_of_int_eq [of "numeral a" "numeral b", where ?'a = rat] by simp

lemma sigScale_pos: "0 < sigScale x"
proof (induction x rule: sigScale.induct)
  case (1 x)
  then show ?case
    by (subst sigScale.simps) simp
qed

lemma sigScale_range:
  "0 < x \<Longrightarrow> 10 ^ 19 \<le> x * sigScale x \<and> x * sigScale x < 10 ^ 20"
proof (induction x rule: sigScale.induct)
  case (1 x)
  show ?case
  proof (cases "x < 10 ^ 19")
    case True
    with "1.prems" "1.IH"(1) have "10 ^ 19 \<le> x * 10 * sigScale (x * 10)
        \<and> x * 10 * sigScale (x * 10) < 10 ^ 20"
      by simp
    moreover from True "1.prems" have "sigScale x = 10 * sigScale (x * 10)"
      by (subst sigScale.simps) simp
    ultimately show ?thesis
      by (simp add: mult.assoc mult.left_commute)
  next
    case small: False
    show ?thesis
    proof (cases "10 ^ 20 \<le> x")
      case True
      with small "1.prems" "1.IH"(2) have range: "10 ^ 19 \<le> x / 10 * sigScale (x / 10)
          \<and> x / 10 * sigScale (x / 10) < 10 ^ 20"
        by simp
      from True small "1.prems" have "sigScale x = sigScale (x / 10) / 10"
        by (subst sigScale.simps) simp
      then have "x * sigScale x = x / 10 * sigScale (x / 10)"
        by simp
      with range show ?thesis
        by (simp only:)
    next
      case False
      with small "1.prems" have "sigScale x = 1"
        by (subst sigScale.simps) simp
      with small False show ?thesis
        by simp
    qed
  qed
qed

lemma sigScale_power_of_ten: "\<exists>k :: int. sigScale x = 10 powi k"
proof (induction x rule: sigScale.induct)
  case (1 x)
  consider (nonpos) "x \<le> 0" | (up) "\<not> x \<le> 0" "x < 10 ^ 19"
    | (down) "\<not> x \<le> 0" "\<not> x < 10 ^ 19" "10 ^ 20 \<le> x"
    | (stay) "\<not> x \<le> 0" "\<not> x < 10 ^ 19" "\<not> 10 ^ 20 \<le> x"
    by blast
  then show ?case
  proof cases
    case nonpos
    then have "sigScale x = 10 powi 0"
      by (subst sigScale.simps) simp
    then show ?thesis ..
  next
    case up
    with "1.IH"(1) obtain k :: int where "sigScale (x * 10) = 10 powi k"
      by blast
    with up have "sigScale x = 10 powi (k + 1)"
      by (subst sigScale.simps) (simp add: power_int_add)
    then show ?thesis ..
  next
    case down
    with "1.IH"(2) obtain k :: int where "sigScale (x / 10) = 10 powi k"
      by blast
    with down have "sigScale x = 10 powi (k - 1)"
      by (subst sigScale.simps) (simp add: power_int_diff)
    then show ?thesis ..
  next
    case stay
    then have "sigScale x = 10 powi 0"
      by (subst sigScale.simps) simp
    then show ?thesis ..
  qed
qed

lemma finalise_zero [simp]: "finalise 0 = 0"
  by (simp add: finalise_def)

lemma finalise_minus: "finalise (- x) = - finalise x"
  by (simp add: finalise_def sgn_minus)

lemma finalise_pos:
  "0 < x \<Longrightarrow> finalise x = of_int \<lfloor>x * sigScale x + 1 / 2\<rfloor> / sigScale x"
  by (simp add: finalise_def)

lemma finalise_pos_bounds:
  assumes "0 < x"
  shows "10 ^ 19 / sigScale x \<le> finalise x" and "finalise x \<le> 10 ^ 20 / sigScale x"
proof -
  let ?s = "sigScale x"
  have s: "0 < ?s" by (rule sigScale_pos)
  from sigScale_range [OF assms] have lo: "10 ^ 19 \<le> x * ?s" and hi: "x * ?s < 10 ^ 20"
    by simp_all
  have "of_int (10 ^ 19) \<le> x * ?s + 1 / 2"
    using lo by simp
  then have "(10 ^ 19 :: int) \<le> \<lfloor>x * ?s + 1 / 2\<rfloor>"
    by (simp only: le_floor_iff)
  then have "(of_int (10 ^ 19) :: rat) \<le> of_int \<lfloor>x * ?s + 1 / 2\<rfloor>"
    by (simp only: of_int_le_iff)
  then have "(10 ^ 19 :: rat) \<le> of_int \<lfloor>x * ?s + 1 / 2\<rfloor>"
    by simp
  with s show "10 ^ 19 / ?s \<le> finalise x"
    by (simp add: finalise_pos [OF assms] divide_right_mono)
  have "x * ?s + 1 / 2 < of_int (10 ^ 20) + 1"
    using hi by simp
  then have "\<lfloor>x * ?s + 1 / 2\<rfloor> < (10 ^ 20 :: int) + 1"
    by (simp only: floor_less_iff of_int_add of_int_1)
  then have "\<lfloor>x * ?s + 1 / 2\<rfloor> \<le> (10 ^ 20 :: int)"
    by simp
  then have "(of_int \<lfloor>x * ?s + 1 / 2\<rfloor> :: rat) \<le> of_int (10 ^ 20)"
    by (simp only: of_int_le_iff)
  then have "(of_int \<lfloor>x * ?s + 1 / 2\<rfloor> :: rat) \<le> 10 ^ 20"
    by simp
  with s show "finalise x \<le> 10 ^ 20 / ?s"
    by (simp add: finalise_pos [OF assms] divide_right_mono)
qed

lemma finalise_pos_pos: "0 < x \<Longrightarrow> 0 < finalise x"
proof -
  assume "0 < x"
  from finalise_pos_bounds(1) [OF this] have "10 ^ 19 / sigScale x \<le> finalise x" .
  moreover have "0 < (10 ^ 19 :: rat) / sigScale x"
    using sigScale_pos [of x] by simp
  ultimately show ?thesis by linarith
qed

lemma finalise_mono_pos:
  assumes "0 < x" and "x \<le> y"
  shows "finalise x \<le> finalise y"
proof -
  from assms have y: "0 < y" by simp
  obtain kx :: int where kx: "sigScale x = 10 powi kx"
    using sigScale_power_of_ten by blast
  obtain ky :: int where ky: "sigScale y = 10 powi ky"
    using sigScale_power_of_ten by blast
  from sigScale_range [OF assms(1)] have xlo: "10 ^ 19 \<le> x * sigScale x" by simp
  from sigScale_range [OF y] have yhi: "y * sigScale y < 10 ^ 20" by simp
  have "ky \<le> kx"
  proof (rule ccontr)
    assume "\<not> ky \<le> kx"
    then have "kx + 1 \<le> ky" by simp
    then have "(10 :: rat) powi (kx + 1) \<le> 10 powi ky"
      by (rule power_int_increasing) simp
    then have "10 * sigScale x \<le> sigScale y"
      by (simp add: kx ky power_int_add)
    with assms(1) have "x * (10 * sigScale x) \<le> x * sigScale y"
      by (simp only: mult_le_cancel_left_pos)
    also have "\<dots> \<le> y * sigScale y"
      using assms(2) sigScale_pos [of y] by (simp add: mult_right_mono)
    finally have "10 * (x * sigScale x) < 10 ^ 20"
      using yhi by (simp add: mult.left_commute)
    with xlo show False by simp
  qed
  then consider (same) "ky = kx" | (less) "ky + 1 \<le> kx"
    by linarith
  then show ?thesis
  proof cases
    case same
    then have eq: "sigScale y = sigScale x"
      by (simp add: kx ky)
    have "x * sigScale x + 1 / 2 \<le> y * sigScale x + 1 / 2"
      using assms(2) sigScale_pos [of x] by (simp add: mult_right_mono)
    then have "\<lfloor>x * sigScale x + 1 / 2\<rfloor> \<le> \<lfloor>y * sigScale x + 1 / 2\<rfloor>"
      by (rule floor_mono)
    then have "(of_int \<lfloor>x * sigScale x + 1 / 2\<rfloor> :: rat) \<le> of_int \<lfloor>y * sigScale x + 1 / 2\<rfloor>"
      by (simp only: of_int_le_iff)
    then show ?thesis
      using sigScale_pos [of x]
      by (simp add: finalise_pos [OF assms(1)] finalise_pos [OF y] eq divide_right_mono)
  next
    case less
    then have "(10 :: rat) powi (ky + 1) \<le> 10 powi kx"
      by (rule power_int_increasing) simp
    then have scale: "10 * sigScale y \<le> sigScale x"
      by (simp add: kx ky power_int_add)
    have sy: "0 < sigScale y" by (rule sigScale_pos)
    have "finalise x \<le> 10 ^ 20 / sigScale x"
      by (rule finalise_pos_bounds(2) [OF assms(1)])
    also have "\<dots> \<le> 10 ^ 20 / (10 * sigScale y)"
      using scale sy by (intro divide_left_mono) simp_all
    also have "\<dots> = 10 ^ 19 / sigScale y"
      by simp
    also have "\<dots> \<le> finalise y"
      by (rule finalise_pos_bounds(1) [OF y])
    finally show ?thesis .
  qed
qed

lemma finalise_mono: "x \<le> y \<Longrightarrow> finalise x \<le> finalise y"
proof -
  assume le: "x \<le> y"
  consider (pos) "0 < x" | (neg) "y < 0" | (mixed) "x \<le> 0" "0 \<le> y"
    by linarith
  then show ?thesis
  proof cases
    case pos
    then show ?thesis using le by (rule finalise_mono_pos)
  next
    case neg
    with le have "0 < - y" and "- y \<le> - x" by simp_all
    then have "finalise (- y) \<le> finalise (- x)"
      by (rule finalise_mono_pos)
    then show ?thesis
      by (simp add: finalise_minus)
  next
    case mixed
    have "finalise x \<le> 0"
    proof (cases "x = 0")
      case True
      then show ?thesis by simp
    next
      case False
      with mixed have "0 < - x" by simp
      then have "0 < finalise (- x)" by (rule finalise_pos_pos)
      then show ?thesis by (simp add: finalise_minus)
    qed
    moreover have "0 \<le> finalise y"
    proof (cases "y = 0")
      case True
      then show ?thesis by simp
    next
      case False
      with mixed have "0 < y" by simp
      then have "0 < finalise y" by (rule finalise_pos_pos)
      then show ?thesis by simp
    qed
    ultimately show ?thesis by linarith
  qed
qed

lemma finalise_nonneg: "0 \<le> x \<Longrightarrow> 0 \<le> finalise x"
  using finalise_mono [of 0 x] by simp



lemmas decimal_eval =
  Decimal_mul_def Decimal_sub_def Decimal_add_def finalise_def sigScale.simps
  floor_numeral_divide

section \<open>Fee-rate resolver\<close>

text \<open>
  C1.  An account with \<open>isTeamMember\<close> or \<open>isWaivedFees\<close> pays nothing: for every
  trade value, tier catalogue and configuration the five rates and amounts of the
  result are zero, \<open>tierUsed\<close> is \<open>WAIVED\<close> and \<open>discountApplied\<close> is false, whatever
  the other fields of the account (custom fee rate, discount, volume) are.
\<close>

theorem waived_account_pays_nothing:
  assumes "isTeamMember user \<or> isWaivedFees user"
  shows "calculateEffectiveFeeRate cfg user tradeVolume availableFeeTiers =
           \<lparr> originalFeeRate = 0, appliedFeeRate = 0, feeAmount = 0, netFeeAmount = 0,
             rebateAmount = 0, discountApplied = False, tierUsed = ''WAIVED'' \<rparr>"
  using assms by (simp add: calculateEffectiveFeeRate_def)

theorem waived_account_pays_nothing_witness:
  "calculateEffectiveFeeRate referralConfig
     (mockUser\<lparr> customFeeRate := Some (5 / 1000), feeDiscountRate := 1 / 10,
                totalTradeVolume := 15000, isWaivedFees := True \<rparr>)
     1000 mockFeeTiers =
   \<lparr> originalFeeRate = 0, appliedFeeRate = 0, feeAmount = 0, netFeeAmount = 0,
     rebateAmount = 0, discountApplied = False, tierUsed = ''WAIVED'' \<rparr>"
  using waived_account_pays_nothing
    [of "mockUser\<lparr> customFeeRate := Some (5 / 1000), feeDiscountRate := 1 / 10,
                    totalTradeVolume := 15000, isWaivedFees := True \<rparr>"
        referralConfig 1000 mockFeeTiers]
  by simp

subsection \<open>The tier scan\<close>

text \<open>
  The scan is \<open>find\<close> on the sorted list; the sorted list is in descending order of
  priority and keeps the catalogue order among tiers of equal priority.
\<close>

lemma firstQualifyingTier_find:
  "firstQualifyingTier v tiers = find (\<lambda>tier. minimumVolume tier \<le> v) tiers"
  by (induction tiers) simp_all

lemma sortByPriorityDesc_sorted:
  "sorted_wrt (\<lambda>a b. priority b \<le> priority a) (sortByPriorityDesc tiers)"
proof -
  have "sorted (map (\<lambda>tier. - priority tier) (sortByPriorityDesc tiers))"
    by (simp add: sortByPriorityDesc_def)
  then show ?thesis
    by (simp add: sorted_wrt_map)
qed

lemma sortByPriorityDesc_stable:
  "filter (\<lambda>tier. priority tier = p) (sortByPriorityDesc tiers) =
   filter (\<lambda>tier. priority tier = p) tiers"
  using sort_key_stable [of "\<lambda>tier. - priority tier" "- p" tiers]
  by (simp add: sortByPriorityDesc_def)

lemma set_sortByPriorityDesc: "set (sortByPriorityDesc tiers) = set tiers"
  by (simp add: sortByPriorityDesc_def)

lemma firstQualifyingTier_mem:
  "firstQualifyingTier v tiers = Some tier \<Longrightarrow> tier \<in> set tiers"
  by (induction tiers) (auto split: if_splits)

lemma bestTier_active:
  assumes "firstQualifyingTier v (sortByPriorityDesc (filter isActive tiers)) = Some tier"
  shows "tier \<in> set tiers \<and> isActive tier"
  using firstQualifyingTier_mem [OF assms] by (simp add: set_sortByPriorityDesc)

lemma bestTier_highest_priority:
  assumes best: "firstQualifyingTier v (sortByPriorityDesc (filter isActive tiers)) = Some tier"
    and other: "other \<in> set tiers" "isActive other" "minimumVolume other \<le> v"
  shows "priority other \<le> priority tier"
proof -
  define sorted_tiers where "sorted_tiers = sortByPriorityDesc (filter isActive tiers)"
  from best obtain i where i: "i < length sorted_tiers" "sorted_tiers ! i = tier"
    and before: "\<forall>j < i. \<not> minimumVolume (sorted_tiers ! j) \<le> v"
    by (auto simp add: firstQualifyingTier_find find_Some_iff sorted_tiers_def)
  from other have "other \<in> set sorted_tiers"
    by (simp add: sorted_tiers_def set_sortByPriorityDesc)
  then obtain k where k: "k < length sorted_tiers" "sorted_tiers ! k = other"
    by (auto simp add: in_set_conv_nth)
  with before other(3) have "i \<le> k"
    by (meson not_le)
  show ?thesis
  proof (cases "i = k")
    case True
    with i k show ?thesis by simp
  next
    case False
    with \<open>i \<le> k\<close> have "i < k" by simp
    with k(1) sortByPriorityDesc_sorted [of "filter isActive tiers"]
    have "priority (sorted_tiers ! k) \<le> priority (sorted_tiers ! i)"
      by (simp add: sorted_wrt_iff_nth_less sorted_tiers_def)
    with i k show ?thesis by simp
  qed
qed

lemma finalise_one: "finalise 1 = 1"
  by (simp add: decimal_eval)

lemma resolver_amounts:
  assumes "\<not> isTeamMember user" and "\<not> isWaivedFees user" and "customFeeRate user = None"
  shows "originalFeeRate (calculateEffectiveFeeRate cfg user tradeVolume tiers) = baseFeeRate cfg"
    and "feeAmount (calculateEffectiveFeeRate cfg user tradeVolume tiers) =
           Decimal_mul tradeVolume (baseFeeRate cfg)"
    and "netFeeAmount (calculateEffectiveFeeRate cfg user tradeVolume tiers) =
           Decimal_mul tradeVolume
             (appliedFeeRate (calculateEffectiveFeeRate cfg user tradeVolume tiers))"
    and "rebateAmount (calculateEffectiveFeeRate cfg user tradeVolume tiers) =
           Decimal_sub (feeAmount (calculateEffectiveFeeRate cfg user tradeVolume tiers))
             (netFeeAmount (calculateEffectiveFeeRate cfg user tradeVolume tiers))"
  using assms
  by (simp_all add: calculateEffectiveFeeRate_def Let_def split: option.split)

lemma resolver_rate:
  assumes "\<not> isTeamMember user" and "\<not> isWaivedFees user" and "customFeeRate user = None"
  shows "appliedFeeRate (calculateEffectiveFeeRate cfg user tradeVolume tiers) =
           Decimal_mul (baseFeeRate cfg) (Decimal_sub 1 (feeDiscountRate user))
         \<or> (\<exists>tier \<in> set tiers. isActive tier
               \<and> appliedFeeRate (calculateEffectiveFeeRate cfg user tradeVolume tiers)
                   = feeRate tier
               \<and> feeRate tier
                   < Decimal_mul (baseFeeRate cfg) (Decimal_sub 1 (feeDiscountRate user)))"
proof (cases "firstQualifyingTier (totalTradeVolume user)
                (sortByPriorityDesc (filter isActive tiers))")
  case None
  with assms show ?thesis
    by (simp add: calculateEffectiveFeeRate_def Let_def)
next
  case (Some tier)
  from bestTier_active [OF Some] have "tier \<in> set tiers" and "isActive tier"
    by simp_all
  with Some assms show ?thesis
    by (auto simp add: calculateEffectiveFeeRate_def Let_def)
qed

text \<open>
  C2, as the claim states it, fails on the arithmetic: \<open>discountedBaseRate\<close> is not the
  exact product \<open>baseFeeRate * (1 - feeDiscountRate)\<close> but the result of \<^verbatim>\<open>sub\<close> and
  \<^verbatim>\<open>mul\<close>, each rounded to twenty significant digits.  For a discount rate of
  \<open>0.123456789012345678901\<close> and no tier, the applied rate is
  \<open>0.008765432109876543211\<close>, not \<open>0.00876543210987654321099\<close>.
\<close>

theorem tier_or_discounted_base_counterexample:
  "tierUsed (calculateEffectiveFeeRate referralConfig longDiscountUser 1000 []) = ''BASE''
   \<and> appliedFeeRate (calculateEffectiveFeeRate referralConfig longDiscountUser 1000 [])
       = 8765432109876543211 / 10 ^ 21
   \<and> appliedFeeRate (calculateEffectiveFeeRate referralConfig longDiscountUser 1000 [])
       \<noteq> baseFeeRate referralConfig * (1 - feeDiscountRate longDiscountUser)"
  by (simp add: calculateEffectiveFeeRate_def longDiscountUser_def mockUser_def
        referralConfig_def sortByPriorityDesc_def Let_def decimal_eval)

text \<open>
  C2, amended.  For an account that is neither waived nor on a custom fee rate, the
  active tiers are sorted by priority descending (tiers of equal priority keep their
  catalogue order), \<open>bestTier\<close> is the first tier of that list whose \<open>minimumVolume\<close> is
  at most the account's \<open>totalTradeVolume\<close>, and \<open>discountedBaseRate\<close> is
  \<open>mul(baseFeeRate, sub(1, feeDiscountRate))\<close> in decimal.js arithmetic, each result
  rounded to twenty significant digits.  The tier is used (its fee rate applied, its
  name reported, \<open>discountApplied\<close> false) exactly when \<open>bestTier\<close> exists and its fee
  rate is strictly below \<open>discountedBaseRate\<close>; otherwise the discounted base rate is
  applied, \<open>tierUsed\<close> is \<open>BASE\<close> and \<open>discountApplied\<close> is true exactly when
  \<open>feeDiscountRate > 0\<close>.
\<close>

theorem tier_or_discounted_base:
  assumes "\<not> isTeamMember user" and "\<not> isWaivedFees user" and "customFeeRate user = None"
  shows "let r = calculateEffectiveFeeRate cfg user tradeVolume availableFeeTiers;
             activeTiers = filter isActive availableFeeTiers;
             sortedTiers = sortByPriorityDesc activeTiers;
             bestTier = find (\<lambda>tier. minimumVolume tier \<le> totalTradeVolume user) sortedTiers;
             discountedBaseRate =
               Decimal_mul (baseFeeRate cfg) (Decimal_sub 1 (feeDiscountRate user));
             useTier = (case bestTier of None \<Rightarrow> False
                        | Some tier \<Rightarrow> feeRate tier < discountedBaseRate)
         in sorted_wrt (\<lambda>a b. priority b \<le> priority a) sortedTiers
            \<and> (\<forall>p. filter (\<lambda>tier. priority tier = p) sortedTiers
                     = filter (\<lambda>tier. priority tier = p) activeTiers)
            \<and> (if useTier
                then appliedFeeRate r = feeRate (the bestTier)
                     \<and> tierUsed r = name (the bestTier) \<and> discountApplied r = False
                else appliedFeeRate r = discountedBaseRate \<and> tierUsed r = ''BASE''
                     \<and> discountApplied r = (0 < feeDiscountRate user))"
  using assms
  by (simp add: calculateEffectiveFeeRate_def firstQualifyingTier_find Let_def
        sortByPriorityDesc_sorted sortByPriorityDesc_stable split: option.split)

theorem tier_or_discounted_base_witness:
  "appliedFeeRate (calculateEffectiveFeeRate referralConfig tier1User 1000 mockFeeTiers) = 8 / 1000
   \<and> tierUsed (calculateEffectiveFeeRate referralConfig tier1User 1000 mockFeeTiers) = ''TIER1''
   \<and> discountApplied (calculateEffectiveFeeRate referralConfig tier1User 1000 mockFeeTiers) = False"
  using tier_or_discounted_base [of tier1User referralConfig 1000 mockFeeTiers]
  by (simp add: tier1User_def mockUser_def mockFeeTiers_def mkTier_def referralConfig_def
        sortByPriorityDesc_def Let_def decimal_eval)

text \<open>
  C3, as the claim states it, fails.  Nothing in the resolver bounds the discount
  rate, a tier's fee rate or the configured base rate: a negative discount rate (a
  surcharge) gives an applied rate above the original rate and a negative rebate; a
  tier with a negative fee rate, a discount rate above \<open>1\<close> or a negative base rate
  gives a negative applied rate.  And the rebate is the rounded difference: for a
  trade value of \<open>12345678901234567891\<close> on a tier with fee rate \<open>0.001\<close> the fee is
  \<open>123456789012345678.91\<close>, the net fee \<open>12345678901234567.891\<close> and the rebate
  \<open>111111110111111111.02\<close>, not \<open>111111110111111111.019\<close>.
\<close>

theorem fee_bounds_counterexample:
  "\<not> (appliedFeeRate (calculateEffectiveFeeRate referralConfig surchargedUser 1000 [])
        \<le> originalFeeRate (calculateEffectiveFeeRate referralConfig surchargedUser 1000 []))
   \<and> \<not> (0 \<le> rebateAmount (calculateEffectiveFeeRate referralConfig surchargedUser 1000 []))
   \<and> \<not> (0 \<le> appliedFeeRate
               (calculateEffectiveFeeRate referralConfig mockUser 1000 [negativeRateTier]))
   \<and> \<not> (0 \<le> appliedFeeRate
               (calculateEffectiveFeeRate referralConfig overDiscountedUser 1000 []))
   \<and> \<not> (0 \<le> appliedFeeRate
               (calculateEffectiveFeeRate negativeBaseConfig mockUser 1000 []))
   \<and> rebateAmount
         (calculateEffectiveFeeRate referralConfig mockUser 12345678901234567891 [cheapTier])
       \<noteq> feeAmount
           (calculateEffectiveFeeRate referralConfig mockUser 12345678901234567891 [cheapTier])
         - netFeeAmount
             (calculateEffectiveFeeRate referralConfig mockUser 12345678901234567891 [cheapTier])"
  by (simp add: calculateEffectiveFeeRate_def surchargedUser_def overDiscountedUser_def
        mockUser_def referralConfig_def negativeBaseConfig_def negativeRateTier_def cheapTier_def
        mkTier_def sortByPriorityDesc_def Let_def decimal_eval)

text \<open>
  C3, amended.  For an account that is neither waived nor on a custom fee rate, a
  non-negative trade value, a configured base rate that is non-negative and has at
  most twenty significant digits (as every JavaScript number has), a discount rate
  in \<open>[0, 1]\<close> and a catalogue whose active tiers have non-negative fee rates:
  \<open>0 \<le> appliedFeeRate \<le> originalFeeRate\<close>, and \<open>rebateAmount\<close> is
  \<open>feeAmount - netFeeAmount\<close> rounded to twenty significant digits and is not
  negative.
\<close>

theorem fee_bounds:
  assumes "\<not> isTeamMember user" and "\<not> isWaivedFees user" and "customFeeRate user = None"
    and "0 \<le> tradeVolume"
    and "0 \<le> baseFeeRate cfg" and "finalise (baseFeeRate cfg) = baseFeeRate cfg"
    and "0 \<le> feeDiscountRate user" and "feeDiscountRate user \<le> 1"
    and "\<forall>tier \<in> set availableFeeTiers. isActive tier \<longrightarrow> 0 \<le> feeRate tier"
  shows "0 \<le> appliedFeeRate (calculateEffectiveFeeRate cfg user tradeVolume availableFeeTiers)
       \<and> appliedFeeRate (calculateEffectiveFeeRate cfg user tradeVolume availableFeeTiers)
           \<le> originalFeeRate (calculateEffectiveFeeRate cfg user tradeVolume availableFeeTiers)
       \<and> rebateAmount (calculateEffectiveFeeRate cfg user tradeVolume availableFeeTiers)
           = finalise
               (feeAmount (calculateEffectiveFeeRate cfg user tradeVolume availableFeeTiers)
                - netFeeAmount (calculateEffectiveFeeRate cfg user tradeVolume availableFeeTiers))
       \<and> 0 \<le> rebateAmount (calculateEffectiveFeeRate cfg user tradeVolume availableFeeTiers)"
proof -
  let ?r = "calculateEffectiveFeeRate cfg user tradeVolume availableFeeTiers"
  let ?base = "baseFeeRate cfg"
  let ?keep = "Decimal_sub 1 (feeDiscountRate user)"
  let ?disc = "Decimal_mul ?base ?keep"
  note plain = assms(1-3)
  have keep_lo: "0 \<le> ?keep"
    using assms(8) by (simp add: Decimal_sub_def finalise_nonneg)
  have keep_hi: "?keep \<le> 1"
    using assms(7) finalise_mono [of "1 - feeDiscountRate user" 1]
    by (simp add: Decimal_sub_def finalise_one)
  have disc_lo: "0 \<le> ?disc"
    using assms(5) keep_lo by (simp add: Decimal_mul_def finalise_nonneg)
  have "?base * ?keep \<le> ?base"
    using assms(5) keep_hi by (simp add: mult_left_le)
  then have "finalise (?base * ?keep) \<le> finalise ?base"
    by (rule finalise_mono)
  then have disc_hi: "?disc \<le> ?base"
    by (simp add: Decimal_mul_def assms(6))
  have rate: "0 \<le> appliedFeeRate ?r \<and> appliedFeeRate ?r \<le> ?base"
    using resolver_rate [OF plain, of cfg tradeVolume availableFeeTiers]
  proof
    assume "appliedFeeRate ?r = ?disc"
    with disc_lo disc_hi show ?thesis by simp
  next
    assume "\<exists>tier \<in> set availableFeeTiers. isActive tier
              \<and> appliedFeeRate ?r = feeRate tier \<and> feeRate tier < ?disc"
    then obtain tier where "tier \<in> set availableFeeTiers" and "isActive tier"
      and "appliedFeeRate ?r = feeRate tier" and "feeRate tier < ?disc"
      by blast
    with assms(9) disc_hi show ?thesis by auto
  qed
  have "tradeVolume * appliedFeeRate ?r \<le> tradeVolume * ?base"
    using rate assms(4) by (simp add: mult_left_mono)
  then have "netFeeAmount ?r \<le> feeAmount ?r"
    by (simp add: resolver_amounts [OF plain] Decimal_mul_def finalise_mono)
  then have rebate: "0 \<le> rebateAmount ?r"
    by (simp add: resolver_amounts(4) [OF plain] Decimal_sub_def finalise_nonneg)
  from rate rebate show ?thesis
    by (simp add: resolver_amounts(1) [OF plain] resolver_amounts(4) [OF plain]
          Decimal_sub_def)
qed

theorem fee_bounds_witness:
  "0 \<le> appliedFeeRate (calculateEffectiveFeeRate referralConfig tier1User 1000 mockFeeTiers)
   \<and> appliedFeeRate (calculateEffectiveFeeRate referralConfig tier1User 1000 mockFeeTiers)
       \<le> originalFeeRate (calculateEffectiveFeeRate referralConfig tier1User 1000 mockFeeTiers)
   \<and> rebateAmount (calculateEffectiveFeeRate referralConfig tier1User 1000 mockFeeTiers)
       = finalise
           (feeAmount (calculateEffectiveFeeRate referralConfig tier1User 1000 mockFeeTiers)
            - netFeeAmount (calculateEffectiveFeeRate referralConfig tier1User 1000 mockFeeTiers))
   \<and> 0 \<le> rebateAmount (calculateEffectiveFeeRate referralConfig tier1User 1000 mockFeeTiers)"
  using fee_bounds [of tier1User 1000 referralConfig mockFeeTiers]
  by (simp add: tier1User_def mockUser_def mockFeeTiers_def mkTier_def referralConfig_def
        decimal_eval)

section \<open>Commission distributor\<close>

subsection \<open>The loop in closed form\<close>

text \<open>
  Started at a level \<open>lvl \<ge> 1\<close>, the loop appends to its list what the body adds at each
  level from \<open>lvl\<close> up to \<open>min (length referralChain) maxReferralDepth\<close>, in that order.
\<close>

lemma distributionLoop_closed:
  "1 \<le> lvl \<Longrightarrow>
   distributionLoop cfg referralChain net lvl distributions =
     distributions @
       concat (map (levelEntry cfg referralChain net)
                 [lvl ..< Suc (min (length referralChain) maxReferralDepth)])"
proof (induction cfg referralChain net lvl distributions rule: distributionLoop.induct)
  case (1 cfg referralChain net lvl distributions)
  define top where "top = min (length referralChain) maxReferralDepth"
  note unfold = distributionLoop.simps [of cfg referralChain net lvl distributions,
      folded top_def]
  note IH = "1.IH" [folded top_def]
  have "distributionLoop cfg referralChain net lvl distributions =
          distributions @ concat (map (levelEntry cfg referralChain net) [lvl ..< Suc top])"
  proof (cases "lvl \<le> top")
    case False
    then show ?thesis
      by (simp add: unfold del: upt_Suc)
  next
    case True
    then have range: "[lvl ..< Suc top] = lvl # [Suc lvl ..< Suc top]"
      by (simp add: upt_conv_Cons del: upt_Suc)
    show ?thesis
    proof (cases "isTeamMember (referralChain ! (lvl - 1))")
      case team: True
      then have "levelEntry cfg referralChain net lvl = []"
        by (simp add: levelEntry_def)
      with True team IH(1) [OF True refl team] show ?thesis
        by (simp add: unfold range Let_def del: upt_Suc)
    next
      case plain: False
      show ?thesis
      proof (cases "minimumCommissionAmount
                      \<le> Decimal_mul net (getCommissionRate cfg (referralChain ! (lvl - 1)) lvl)")
        case paid: True
        with plain have "levelEntry cfg referralChain net lvl =
            [\<lparr> level = lvl, earnerId = id_User (referralChain ! (lvl - 1)),
               earnerEmail = email (referralChain ! (lvl - 1)),
               amount = Decimal_mul net (getCommissionRate cfg (referralChain ! (lvl - 1)) lvl),
               rate = getCommissionRate cfg (referralChain ! (lvl - 1)) lvl,
               commissionId = '''' \<rparr>]"
          using paid by (simp add: levelEntry_def Let_def)
        with True plain paid IH(2) [OF True refl plain refl refl paid] show ?thesis
          by (simp add: unfold range Let_def del: upt_Suc)
      next
        case dropped: False
        with plain have "levelEntry cfg referralChain net lvl = []"
          by (simp add: levelEntry_def)
        with True plain dropped IH(3) [OF True refl plain refl refl dropped] show ?thesis
          by (simp add: unfold range Let_def del: upt_Suc)
      qed
    qed
  qed
  then show ?case
    by (simp only: top_def)
qed

lemma calculateCommissionDistribution_closed:
  "calculateCommissionDistribution cfg trade trader referralChain feeCalculationResult =
     (if netFeeAmount feeCalculationResult \<le> 0 then []
      else concat (map (levelEntry cfg referralChain (netFeeAmount feeCalculationResult))
                     [1 ..< Suc (min (length referralChain) maxReferralDepth)]))"
  by (simp add: calculateCommissionDistribution_def distributionLoop_closed del: upt_Suc)

lemma getCommissionRate_levelRate:
  "1 \<le> lvl \<Longrightarrow> lvl \<le> 3 \<Longrightarrow> getCommissionRate cfg referrer lvl = levelRate_spec cfg referrer lvl"
proof -
  assume "1 \<le> lvl" and "lvl \<le> 3"
  then consider "lvl = 1" | "lvl = 2" | "lvl = 3"
    by linarith
  then show ?thesis
    by cases
      (simp_all add: getCommissionRate_def getCustomCommissionRate_def levelRate_spec_def
         standardRate_spec_def customRate_spec_def split: option.split)
qed

lemma levelEntry_member:
  assumes "d \<in> set (levelEntry cfg referralChain net lvl)"
  shows "level d = lvl"
    and "\<not> isTeamMember (referralChain ! (lvl - 1))"
    and "earnerId d = id_User (referralChain ! (lvl - 1))"
    and "earnerEmail d = email (referralChain ! (lvl - 1))"
    and "rate d = getCommissionRate cfg (referralChain ! (lvl - 1)) lvl"
    and "amount d = Decimal_mul net (rate d)"
    and "minimumCommissionAmount \<le> amount d"
  using assms by (auto simp add: levelEntry_def Let_def split: if_splits)

lemma levelEntry_nonempty:
  "levelEntry cfg referralChain net lvl \<noteq> [] \<longleftrightarrow>
     \<not> isTeamMember (referralChain ! (lvl - 1))
     \<and> minimumCommissionAmount
           \<le> Decimal_mul net (getCommissionRate cfg (referralChain ! (lvl - 1)) lvl)"
  by (simp add: levelEntry_def Let_def)

lemma length_levelEntry: "length (levelEntry cfg referralChain net lvl) \<le> 1"
  by (simp add: levelEntry_def Let_def)

lemma length_concat_le:
  "(\<And>x. length (f x) \<le> 1) \<Longrightarrow> length (concat (map f xs)) \<le> length xs"
proof (induction xs)
  case Nil
  then show ?case by simp
next
  case (Cons x xs)
  then have "length (f x) \<le> 1" and "length (concat (map f xs)) \<le> length xs"
    by simp_all
  then show ?case by simp
qed

lemma sorted_levels_concat:
  assumes "sorted xs" and "\<And>x d. d \<in> set (f x) \<Longrightarrow> level d = x"
  shows "sorted (map level (concat (map f xs)))"
  using assms(1)
proof (induction xs)
  case Nil
  then show ?case by simp
next
  case (Cons x xs)
  have here: "\<forall>a \<in> set (map level (f x)). a = x"
    using assms(2) by auto
  have later: "\<forall>b \<in> set (map level (concat (map f xs))). x \<le> b"
    using Cons.prems assms(2) by auto
  have "sorted (map level (f x))"
    using here by (simp add: sorted_wrt_iff_nth_less sorted_wrt_map)
  with here later Cons show ?case
    by (auto simp add: sorted_append)
qed

lemma distribution_member:
  "d \<in> set (calculateCommissionDistribution cfg trade trader referralChain fr) \<longleftrightarrow>
     0 < netFeeAmount fr
     \<and> 1 \<le> level d \<and> level d \<le> min (length referralChain) maxReferralDepth
     \<and> d \<in> set (levelEntry cfg referralChain (netFeeAmount fr) (level d))"
proof (cases "netFeeAmount fr \<le> 0")
  case True
  then show ?thesis
    by (simp add: calculateCommissionDistribution_closed)
next
  case False
  define top where "top = min (length referralChain) maxReferralDepth"
  define entry where "entry = levelEntry cfg referralChain (netFeeAmount fr)"
  have level_of: "level e = lvl" if "e \<in> set (entry lvl)" for e lvl
    using that levelEntry_member(1) by (simp add: entry_def)
  have "calculateCommissionDistribution cfg trade trader referralChain fr =
          concat (map entry [1 ..< Suc top])"
    using False by (simp add: calculateCommissionDistribution_closed top_def entry_def)
  then have "d \<in> set (calculateCommissionDistribution cfg trade trader referralChain fr) \<longleftrightarrow>
          (\<exists>lvl. 1 \<le> lvl \<and> lvl \<le> top \<and> d \<in> set (entry lvl))"
    by (auto simp del: upt_Suc)
  also have "\<dots> \<longleftrightarrow> 1 \<le> level d \<and> level d \<le> top \<and> d \<in> set (entry (level d))"
    using level_of by blast
  finally show ?thesis
    using False by (simp add: top_def entry_def)
qed

text \<open>
  C4.  A referrer with \<open>isTeamMember\<close> produces no distribution, and the entries of the
  other referrers keep the level of their position in the chain: every distribution
  at level \<open>k\<close> belongs to the referrer at position \<open>k\<close> of the chain, who is not a team
  member.  In particular, for a chain \<open>[teamMember, plainReferrer]\<close>, a net fee of
  \<open>450\<close> and the standard rates, the output is exactly one distribution, with level
  \<open>2\<close>, amount \<open>13.5\<close>, rate \<open>0.03\<close> and the plain referrer as earner.
\<close>

theorem team_member_skip_keeps_positions:
  "(\<forall>d \<in> set (calculateCommissionDistribution cfg trade trader referralChain fr).
      1 \<le> level d \<and> level d \<le> length referralChain
      \<and> \<not> isTeamMember (referralChain ! (level d - 1))
      \<and> earnerId d = id_User (referralChain ! (level d - 1)))
   \<and> (isTeamMember teamReferrer \<and> \<not> isTeamMember plainReferrer
        \<and> customCommissionStructure plainReferrer = None \<and> netFeeAmount fr' = 450 \<longrightarrow>
        calculateCommissionDistribution referralConfig trade' trader'
            [teamReferrer, plainReferrer] fr' =
          [\<lparr> level = 2, earnerId = id_User plainReferrer, earnerEmail = email plainReferrer,
             amount = 27 / 2, rate = 3 / 100, commissionId = '''' \<rparr>])"
proof (intro conjI ballI impI)
  fix d
  assume "d \<in> set (calculateCommissionDistribution cfg trade trader referralChain fr)"
  then have range: "1 \<le> level d" "level d \<le> min (length referralChain) maxReferralDepth"
    and entry: "d \<in> set (levelEntry cfg referralChain (netFeeAmount fr) (level d))"
    by (simp_all add: distribution_member)
  show "1 \<le> level d" by (rule range(1))
  show "level d \<le> length referralChain" using range(2) by simp
  show "\<not> isTeamMember (referralChain ! (level d - 1))"
    by (rule levelEntry_member(2) [OF entry])
  show "earnerId d = id_User (referralChain ! (level d - 1))"
    by (rule levelEntry_member(3) [OF entry])
next
  assume scenario: "isTeamMember teamReferrer \<and> \<not> isTeamMember plainReferrer
    \<and> customCommissionStructure plainReferrer = None \<and> netFeeAmount fr' = 450"
  have levels: "[1 ..< Suc (min (length [teamReferrer, plainReferrer]) maxReferralDepth)] = [1, 2]"
    by (simp add: maxReferralDepth_def upt_conv_Cons)
  have first: "levelEntry referralConfig [teamReferrer, plainReferrer] 450 1 = []"
    using scenario by (simp add: levelEntry_def)
  have second: "levelEntry referralConfig [teamReferrer, plainReferrer] 450 2 =
      [\<lparr> level = 2, earnerId = id_User plainReferrer, earnerEmail = email plainReferrer,
         amount = 27 / 2, rate = 3 / 100, commissionId = '''' \<rparr>]"
    using scenario
    by (simp add: levelEntry_def getCommissionRate_def referralConfig_def
          minimumCommissionAmount_def decimal_eval)
  from scenario levels first second
  show "calculateCommissionDistribution referralConfig trade' trader'
            [teamReferrer, plainReferrer] fr' =
          [\<lparr> level = 2, earnerId = id_User plainReferrer, earnerEmail = email plainReferrer,
             amount = 27 / 2, rate = 3 / 100, commissionId = '''' \<rparr>]"
    by (simp add: calculateCommissionDistribution_closed del: upt_Suc)
qed

theorem team_member_skip_keeps_positions_witness:
  "calculateCommissionDistribution referralConfig mockTrade traderUser [teamMember, level2User]
       mockFeeResult =
     [\<lparr> level = 2, earnerId = ''level2'', earnerEmail = ''level2@test.com'',
        amount = 27 / 2, rate = 3 / 100, commissionId = '''' \<rparr>]"
  using team_member_skip_keeps_positions
    [of referralConfig mockTrade traderUser "[]" mockFeeResult teamMember level2User
        mockFeeResult mockTrade traderUser]
  by (simp add: teamMember_def level2User_def mockUser_def mockFeeResult_def)

text \<open>
  C5, as the claim states it, fails on the arithmetic: the amount is the product
  rounded to twenty significant digits, and it is the rounded amount that is compared
  with the threshold.  For a net fee of \<open>0.030000000000000003\<close> and a custom level-1
  rate of \<open>0.3333333333333333\<close> the exact product \<open>0.00999\<dots>9\<close> (thirty-two nines)
  is below the threshold \<open>0.01\<close>, yet an entry is emitted, with amount \<open>0.01\<close>.
\<close>

theorem level_rate_and_threshold_counterexample:
  "calculateCommissionDistribution referralConfig mockTrade traderUser [thirdsReferrer]
       smallFeeResult =
     [\<lparr> level = 1, earnerId = ''kol3'', earnerEmail = ''kol3@test.com'',
        amount = 1 / 100, rate = 3333333333333333 / 10 ^ 16, commissionId = '''' \<rparr>]
   \<and> netFeeAmount smallFeeResult * (3333333333333333 / 10 ^ 16) < minimumCommissionAmount"
  by (simp add: calculateCommissionDistribution_closed levelEntry_def getCommissionRate_def
        getCustomCommissionRate_def thirdsReferrer_def thirdsStructure_def smallFeeResult_def
        mockFeeResult_def mockUser_def referralConfig_def maxReferralDepth_def
        minimumCommissionAmount_def upt_conv_Cons Let_def decimal_eval del: upt_Suc)

text \<open>
  C5, amended.  Every distribution emitted at level \<open>N\<close> carries the rate of the
  referrer's custom commission structure for that level when the structure is present
  and the rate is set, and the standard configured rate of the level otherwise (by
  default \<open>0.30\<close>, \<open>0.03\<close>, \<open>0.02\<close>); its amount is the net fee times that rate,
  rounded to twenty significant digits, and nothing else; and, for a positive net
  fee and a referrer at a position \<open>N\<close> of the loop who is not a team member, an entry
  at level \<open>N\<close> is emitted exactly when that rounded amount reaches the minimum
  commission amount (\<open>0.01\<close>).
\<close>

theorem level_rate_and_threshold:
  "(\<forall>d \<in> set (calculateCommissionDistribution cfg trade trader referralChain fr).
      rate d = levelRate_spec cfg (referralChain ! (level d - 1)) (level d)
      \<and> amount d = Decimal_mul (netFeeAmount fr) (rate d)
      \<and> minimumCommissionAmount \<le> amount d)
   \<and> (0 < netFeeAmount fr \<and> 1 \<le> n \<and> n \<le> min (length referralChain) 3
        \<and> \<not> isTeamMember (referralChain ! (n - 1)) \<longrightarrow>
        (n \<in> set (map level (calculateCommissionDistribution cfg trade trader referralChain fr))
         \<longleftrightarrow> minimumCommissionAmount
               \<le> Decimal_mul (netFeeAmount fr)
                    (levelRate_spec cfg (referralChain ! (n - 1)) n)))
   \<and> minimumCommissionAmount = 1 / 100
   \<and> map (standardRate_spec referralConfig) [1, 2, 3] = [30 / 100, 3 / 100, 2 / 100]"
proof (intro conjI ballI impI)
  fix d
  assume "d \<in> set (calculateCommissionDistribution cfg trade trader referralChain fr)"
  then have range: "1 \<le> level d" "level d \<le> min (length referralChain) maxReferralDepth"
    and entry: "d \<in> set (levelEntry cfg referralChain (netFeeAmount fr) (level d))"
    by (simp_all add: distribution_member)
  from range have "level d \<le> 3"
    by (simp add: maxReferralDepth_def)
  with range(1) levelEntry_member(5) [OF entry]
  show "rate d = levelRate_spec cfg (referralChain ! (level d - 1)) (level d)"
    by (simp add: getCommissionRate_levelRate)
  show "amount d = Decimal_mul (netFeeAmount fr) (rate d)"
    by (rule levelEntry_member(6) [OF entry])
  show "minimumCommissionAmount \<le> amount d"
    by (rule levelEntry_member(7) [OF entry])
next
  assume pos: "0 < netFeeAmount fr \<and> 1 \<le> n \<and> n \<le> min (length referralChain) 3
        \<and> \<not> isTeamMember (referralChain ! (n - 1))"
  let ?out = "calculateCommissionDistribution cfg trade trader referralChain fr"
  let ?entry = "levelEntry cfg referralChain (netFeeAmount fr) n"
  from pos have rate_n: "getCommissionRate cfg (referralChain ! (n - 1)) n
                          = levelRate_spec cfg (referralChain ! (n - 1)) n"
    by (simp add: getCommissionRate_levelRate)
  have "n \<in> set (map level ?out) \<longleftrightarrow> (\<exists>d. d \<in> set ?out \<and> level d = n)"
    by auto
  also have "\<dots> \<longleftrightarrow> (\<exists>d. d \<in> set ?entry)"
    using pos levelEntry_member(1) [of _ cfg referralChain "netFeeAmount fr" n]
    by (auto simp add: distribution_member maxReferralDepth_def)
  also have "\<dots> \<longleftrightarrow> ?entry \<noteq> []"
    by (cases ?entry) auto
  also have "\<dots> \<longleftrightarrow> minimumCommissionAmount
       \<le> Decimal_mul (netFeeAmount fr) (levelRate_spec cfg (referralChain ! (n - 1)) n)"
    using pos rate_n by (simp add: levelEntry_nonempty)
  finally show "n \<in> set (map level ?out) \<longleftrightarrow>
       minimumCommissionAmount
         \<le> Decimal_mul (netFeeAmount fr) (levelRate_spec cfg (referralChain ! (n - 1)) n)" .
next
  show "minimumCommissionAmount = 1 / 100"
    by (simp add: minimumCommissionAmount_def)
  show "map (standardRate_spec referralConfig) [1, 2, 3] = [30 / 100, 3 / 100, 2 / 100]"
    by (simp add: standardRate_spec_def referralConfig_def)
qed

theorem level_rate_and_threshold_witness:
  "1 \<in> set (map level (calculateCommissionDistribution referralConfig mockTrade traderUser
                          [kol, level2User] mockFeeResult))"
  using level_rate_and_threshold
    [of referralConfig mockTrade traderUser "[kol, level2User]" mockFeeResult 1]
  by (simp add: kol_def kolCustomStructure_def mockUser_def mockFeeResult_def levelRate_spec_def
        customRate_spec_def minimumCommissionAmount_def decimal_eval)

text \<open>
  C9.  The list of distributions has at most \<open>min (length referralChain) 3\<close> entries,
  its levels are non-decreasing and each is \<open>1\<close>, \<open>2\<close> or \<open>3\<close>; and the list is empty
  whenever the net fee is not positive.
\<close>

theorem distribution_shape:
  "length (calculateCommissionDistribution cfg trade trader referralChain fr)
     \<le> min (length referralChain) 3
   \<and> sorted (map level (calculateCommissionDistribution cfg trade trader referralChain fr))
   \<and> (\<forall>d \<in> set (calculateCommissionDistribution cfg trade trader referralChain fr).
         level d \<in> {1, 2, 3})
   \<and> (netFeeAmount fr \<le> 0 \<longrightarrow>
         calculateCommissionDistribution cfg trade trader referralChain fr = [])"
proof (intro conjI ballI impI)
  let ?top = "min (length referralChain) maxReferralDepth"
  let ?entry = "levelEntry cfg referralChain (netFeeAmount fr)"
  have "length (concat (map ?entry [1 ..< Suc ?top])) \<le> length [1 ..< Suc ?top]"
    by (rule length_concat_le) (rule length_levelEntry)
  then show "length (calculateCommissionDistribution cfg trade trader referralChain fr)
               \<le> min (length referralChain) 3"
    by (simp add: calculateCommissionDistribution_closed maxReferralDepth_def del: upt_Suc)
  have "sorted (map level (concat (map ?entry [1 ..< Suc ?top])))"
    by (rule sorted_levels_concat) (simp_all add: levelEntry_member(1) del: upt_Suc)
  then show "sorted (map level (calculateCommissionDistribution cfg trade trader referralChain fr))"
    by (simp add: calculateCommissionDistribution_closed del: upt_Suc)
next
  fix d
  assume "d \<in> set (calculateCommissionDistribution cfg trade trader referralChain fr)"
  then have "1 \<le> level d" and "level d \<le> min (length referralChain) maxReferralDepth"
    by (simp_all add: distribution_member)
  then have "1 \<le> level d" and "level d \<le> 3"
    by (simp_all add: maxReferralDepth_def)
  then show "level d \<in> {1, 2, 3}"
    by auto
next
  assume "netFeeAmount fr \<le> 0"
  then show "calculateCommissionDistribution cfg trade trader referralChain fr = []"
    by (simp add: calculateCommissionDistribution_def)
qed

theorem distribution_shape_witness:
  "length (calculateCommissionDistribution referralConfig mockTrade traderUser
             [level1User, level2User, level3User] mockFeeResult) \<le> 3
   \<and> calculateCommissionDistribution referralConfig mockTrade traderUser [level1User] zeroFeeResult
       = []"
  using distribution_shape
      [of referralConfig mockTrade traderUser "[level1User, level2User, level3User]"
          mockFeeResult]
    distribution_shape [of referralConfig mockTrade traderUser "[level1User]" zeroFeeResult]
  by (simp add: zeroFeeResult_def)

text \<open>
  C10.  The distribution does not depend on the trade and the trader: two calls with
  the same chain and the same fee result return the same list, whatever the trade
  and trader arguments are.
\<close>

theorem distribution_ignores_trade_and_trader:
  "calculateCommissionDistribution cfg trade trader referralChain fr =
   calculateCommissionDistribution cfg trade' trader' referralChain fr"
  by (simp add: calculateCommissionDistribution_def)

section \<open>Referral-chain validator\<close>

lemma circularReference_iff:
  "circularReference userIds users \<longleftrightarrow>
     \<not> distinct (map id_User users) \<or> (\<exists>user \<in> set users. id_User user \<in> userIds)"
  by (induction users arbitrary: userIds) (auto intro: rev_image_eqI)

text \<open>
  C6.  \<open>validateReferralChain\<close> returns false exactly when the candidate id occurs in
  the chain, or some account id occurs more than once in the chain, or the chain is
  longer than the maximum depth \<open>3\<close>; in every other case it returns true.
\<close>

theorem validateReferralChain_iff:
  "(validateReferralChain uid referralChain = False) \<longleftrightarrow>
     (uid \<in> set (map id_User referralChain)
      \<or> \<not> distinct (map id_User referralChain)
      \<or> 3 < length referralChain)"
  by (auto simp add: validateReferralChain_def circularReference_iff list_ex_iff
        maxReferralDepth_def)

theorem validateReferralChain_iff_witness:
  "validateReferralChain ''newuser'' [user1, user2, user1] = False
   \<and> validateReferralChain ''newuser'' [user1, user2, user3] = True"
  using validateReferralChain_iff [of "''newuser''" "[user1, user2, user1]"]
    validateReferralChain_iff [of "''newuser''" "[user1, user2, user3]"]
  by (simp add: user1_def user2_def user3_def)

section \<open>Fee-tier selector\<close>

lemma firstQualifyingTier_None:
  "firstQualifyingTier v tiers = None \<longleftrightarrow> (\<forall>tier \<in> set tiers. \<not> minimumVolume tier \<le> v)"
  by (induction tiers) auto

lemma firstQualifyingTier_mono:
  assumes "v1 \<le> v2" and "firstQualifyingTier v1 tiers = Some t1"
  shows "\<exists>t2. firstQualifyingTier v2 tiers = Some t2 \<and> minimumVolume t1 \<le> minimumVolume t2"
  using assms(2)
proof (induction tiers)
  case Nil
  then show ?case by simp
next
  case (Cons tier tiers)
  show ?case
  proof (cases "minimumVolume tier \<le> v1")
    case True
    with Cons.prems assms(1) show ?thesis by simp
  next
    case low: False
    with Cons.prems have rest: "firstQualifyingTier v1 tiers = Some t1"
      by simp
    show ?thesis
    proof (cases "minimumVolume tier \<le> v2")
      case True
      have "t1 \<in> set tiers \<and> minimumVolume t1 \<le> v1"
        using rest by (induction tiers) (auto split: if_splits)
      with low True show ?thesis by simp
    next
      case False
      with Cons.IH [OF rest] show ?thesis by simp
    qed
  qed
qed

text \<open>
  C7, as the claim states it, fails in the fallback case: when no active tier
  qualifies for the smaller volume the selector falls back to the tier named \<open>BASE\<close>
  or to the first tier of the sorted list, whose \<open>minimumVolume\<close> may exceed that of
  the tier that qualifies for the larger volume.  With tiers of minimum volume \<open>100\<close>
  (priority \<open>1\<close>) and \<open>50\<close> (priority \<open>0\<close>), volume \<open>10\<close> selects the former by fallback
  and volume \<open>60\<close> selects the latter.
\<close>

theorem optimal_tier_monotonic_counterexample:
  "(10 :: rat) \<le> 60
   \<and> map_option minimumVolume (calculateOptimalFeeTier 10 steepTiers) = Some 100
   \<and> map_option minimumVolume (calculateOptimalFeeTier 60 steepTiers) = Some 50"
  by (simp add: calculateOptimalFeeTier_def steepTiers_def mkTier_def sortByPriorityDesc_def)

text \<open>
  C7, amended.  For volumes \<open>v1 \<le> v2\<close> such that some active tier qualifies for \<open>v1\<close>,
  or no active tier qualifies for \<open>v2\<close>, the tier selected for \<open>v2\<close> has a
  \<open>minimumVolume\<close> at least that of the tier selected for \<open>v1\<close> (and both calls return
  \<^verbatim>\<open>undefined\<close> together when no tier is active).
\<close>

theorem optimal_tier_monotonic:
  assumes "v1 \<le> v2"
    and "list_ex (\<lambda>tier. isActive tier \<and> minimumVolume tier \<le> v1) availableFeeTiers
         \<or> \<not> list_ex (\<lambda>tier. isActive tier \<and> minimumVolume tier \<le> v2) availableFeeTiers"
  shows "rel_option (\<lambda>t1 t2. minimumVolume t1 \<le> minimumVolume t2)
           (calculateOptimalFeeTier v1 availableFeeTiers)
           (calculateOptimalFeeTier v2 availableFeeTiers)"
proof -
  define activeTiers where "activeTiers = sortByPriorityDesc (filter isActive availableFeeTiers)"
  have qualifies: "firstQualifyingTier v activeTiers = None \<longleftrightarrow>
      \<not> list_ex (\<lambda>tier. isActive tier \<and> minimumVolume tier \<le> v) availableFeeTiers" for v
    by (auto simp add: firstQualifyingTier_None activeTiers_def sortByPriorityDesc_def
          list_ex_iff)
  show ?thesis
  proof (cases "firstQualifyingTier v1 activeTiers")
    case (Some t1)
    from firstQualifyingTier_mono [OF assms(1) Some]
    obtain t2 where "firstQualifyingTier v2 activeTiers = Some t2"
      and "minimumVolume t1 \<le> minimumVolume t2"
      by blast
    with Some show ?thesis
      by (simp add: calculateOptimalFeeTier_def activeTiers_def [symmetric])
  next
    case None
    with assms(2) have "firstQualifyingTier v2 activeTiers = None"
      by (simp add: qualifies)
    with None show ?thesis
      by (simp add: calculateOptimalFeeTier_def activeTiers_def [symmetric]
            option.rel_refl split: option.split list.split)
  qed
qed

theorem optimal_tier_monotonic_witness:
  "rel_option (\<lambda>t1 t2. minimumVolume t1 \<le> minimumVolume t2)
     (calculateOptimalFeeTier 5000 mockFeeTiers) (calculateOptimalFeeTier 50000 mockFeeTiers)"
  using optimal_tier_monotonic [of 5000 50000 mockFeeTiers]
  by (simp add: mockFeeTiers_def mkTier_def)

section \<open>Earnings aggregator\<close>











end
